theory Spec2Isabelle
  imports Complex_Main "HOL-Library.Multiset"
begin

section \<open>Exceptions, the upstream and the fetch result\<close>

text \<open>
  Both bots (\<^verbatim>\<open>mb_exchange_bot.py\<close>, the structured-API variant, and
  \<^verbatim>\<open>mb_exchange_bot_webgia.py\<close>, the markup-scrape variant) wrap the whole fetch in
  \<^verbatim>\<open>try: ... except asyncio.TimeoutError: ... except Exception as e: ...\<close>.
  \<open>exn\<close> is the class \<^verbatim>\<open>Exception\<close>: the timeout, or any other exception together
  with its \<^verbatim>\<open>str(e)\<close>. Signals that are not subclasses of \<^verbatim>\<open>Exception\<close> (task
  cancellation, keyboard interrupt) are not upstream behaviour and are not modelled.
\<close>

datatype exn = TimeoutError | Exception string

text \<open>
  One HTTP exchange: \<^verbatim>\<open>session.get\<close> raises, or yields a response with a status whose
  body, once awaited and parsed (\<^verbatim>\<open>response.json()\<close>, or \<^verbatim>\<open>response.text()\<close> followed by
  \<^verbatim>\<open>BeautifulSoup\<close>), raises or gives a value of type \<open>'b\<close>.
\<close>

datatype 'b response = Response (status: int) (payload: "exn + 'b")

type_synonym 'b upstream = "exn + 'b response"

text \<open>
  The network as the bot sees it: the outcome of the \<open>n\<close>-th request, and the number of
  requests issued so far. \<open>session_get\<close> is the only operation that consumes an outcome.
\<close>

record 'b network =
  replies :: "nat \<Rightarrow> 'b upstream"
  requests :: nat

definition session_get :: "'b network \<Rightarrow> 'b upstream \<times> 'b network" where
  "session_get net = (replies net (requests net), net\<lparr>requests := Suc (requests net)\<rparr>)"

text \<open>
  The dict returned by \<^verbatim>\<open>scrape_aud_rate\<close>: \<^verbatim>\<open>'success'\<close> is always present, the other
  keys only in the branch that sets them (\<^verbatim>\<open>'source'\<close> only in the structured-API variant).
\<close>

record rate_result =
  success :: bool
  rate :: "string option"
  currency :: "string option"
  source :: "string option"
  error :: "string option"

definition failure :: "string \<Rightarrow> rate_result" where
  "failure msg = \<lparr>success = False, rate = None, currency = None, source = None, error = Some msg\<rparr>"

subsection \<open>Python strings\<close>

text \<open>
  Texts are modelled as \<open>string\<close>, one \<open>char\<close> per character, and the two character
  classes the scraper uses are the ASCII ones: \<^verbatim>\<open>str.upper\<close> maps \<^verbatim>\<open>a\<close>..\<^verbatim>\<open>z\<close> to
  \<^verbatim>\<open>A\<close>..\<^verbatim>\<open>Z\<close> and leaves every other character alone, and \<^verbatim>\<open>\d\<close> is \<^verbatim>\<open>0\<close>..\<^verbatim>\<open>9\<close>.
\<close>

definition upper_char :: "char \<Rightarrow> char" where
  "upper_char c =
     (case map_of (zip ''abcdefghijklmnopqrstuvwxyz'' ''ABCDEFGHIJKLMNOPQRSTUVWXYZ'') c of
        Some u \<Rightarrow> u
      | None \<Rightarrow> c)"

definition upper :: "string \<Rightarrow> string" where
  "upper s = map upper_char s"

text \<open>\<^verbatim>\<open>p in s\<close> on strings: \<open>p\<close> occurs in \<open>s\<close> as a contiguous piece.\<close>

fun starts_with :: "string \<Rightarrow> string \<Rightarrow> bool" where
  "starts_with [] s = True"
| "starts_with (p # ps) [] = False"
| "starts_with (p # ps) (c # cs) = (p = c \<and> starts_with ps cs)"

fun contains :: "string \<Rightarrow> string \<Rightarrow> bool" where
  "contains p [] = (p = [])"
| "contains p (c # cs) = (starts_with p (c # cs) \<or> contains p cs)"

definition is_digit :: "char \<Rightarrow> bool" where
  "is_digit c = (c \<in> set ''0123456789'')"

text \<open>\<^verbatim>\<open>re.sub(r'[^\d,.]', '', s)\<close>: every character that is not a digit, a comma or a
  dot is deleted.\<close>

definition clean_rate :: "string \<Rightarrow> string" where
  "clean_rate s = filter (\<lambda>c. is_digit c \<or> c = CHR '','' \<or> c = CHR ''.'') s"

text \<open>Decimal text of an integer, as \<^verbatim>\<open>str(n)\<close> and \<^verbatim>\<open>{n}\<close> in an f-string give it.\<close>

definition digit_char :: "nat \<Rightarrow> char" where
  "digit_char d = ''0123456789'' ! (d mod 10)"

fun digits10 :: "nat \<Rightarrow> string" where
  "digits10 n = (if n < 10 then [digit_char n] else digits10 (n div 10) @ [digit_char (n mod 10)])"

declare digits10.simps [simp del]

definition str_int :: "int \<Rightarrow> string" where
  "str_int n = (if n < 0 then CHR ''-'' # digits10 (nat (- n)) else digits10 (nat n))"

section \<open>The markup-scrape strategy (\<^verbatim>\<open>mb_exchange_bot_webgia.py\<close>)\<close>

text \<open>
  What \<^verbatim>\<open>BeautifulSoup\<close> hands to the scraper: \<^verbatim>\<open>soup.find('table')\<close> is \<^verbatim>\<open>None\<close> or the
  first table; the table is the list of its \<^verbatim>\<open>tr\<close> rows, a row the list of its \<^verbatim>\<open>td\<close>
  cells, and a cell is its \<^verbatim>\<open>get_text(strip=True)\<close>.
\<close>

type_synonym table = "string list list"

type_synonym page = "table option"

text \<open>The \<^verbatim>\<open>for row in rows\<close> loop: the first row that passes all three tests returns;
  a row that fails one is skipped.\<close>

fun scan_rows :: "table \<Rightarrow> string option" where
  "scan_rows [] = None"
| "scan_rows (cells # rows) =
     (if 6 \<le> length cells then
        (let currency_code = cells ! 0 in
         if contains ''AUD'' (upper currency_code) then
           (let selling_rate = clean_rate (cells ! 5) in
            if selling_rate \<noteq> [] \<and> selling_rate \<noteq> ''webgia.com'' then Some selling_rate
            else scan_rows rows)
         else scan_rows rows)
      else scan_rows rows)"

text \<open>The body of the \<^verbatim>\<open>try\<close> block, after \<^verbatim>\<open>session.get\<close> has answered.\<close>

definition webgia_try :: "page upstream \<Rightarrow> exn + rate_result" where
  "webgia_try up =
     (case up of
        Inl e \<Rightarrow> Inl e
      | Inr response \<Rightarrow>
          if status response = 200 then
            (case payload response of
               Inl e \<Rightarrow> Inl e
             | Inr None \<Rightarrow> Inr (failure ''Exchange rate table not found on page'')
             | Inr (Some rows) \<Rightarrow>
                 (case scan_rows rows of
                    Some selling_rate \<Rightarrow>
                      Inr \<lparr>success = True, rate = Some selling_rate, currency = Some ''AUD'',
                           source = None, error = None\<rparr>
                  | None \<Rightarrow>
                      Inr (failure
                        ''AUD rate not found in the table. The website might have changed its structure.'')))
          else Inr (failure (''Failed to fetch page. HTTP Status: '' @ str_int (status response))))"

text \<open>The two \<^verbatim>\<open>except\<close> clauses, shared by both variants.\<close>

definition handle_exn :: "exn + rate_result \<Rightarrow> rate_result" where
  "handle_exn r =
     (case r of
        Inr result \<Rightarrow> result
      | Inl TimeoutError \<Rightarrow> failure ''Request timeout. Please try again later.''
      | Inl (Exception msg) \<Rightarrow> failure (''Error: '' @ msg))"

definition scrape_aud_rate_webgia :: "page network \<Rightarrow> rate_result \<times> page network" where
  "scrape_aud_rate_webgia net =
     (let (up, net') = session_get net in (handle_exn (webgia_try up), net'))"

section \<open>The structured-API strategy (\<^verbatim>\<open>mb_exchange_bot.py\<close>)\<close>

subsection \<open>Parsed JSON\<close>

text \<open>
  A Python float is a sign, a mantissa and a binary exponent (the value is
  \<open>m * 2 ^ e\<close>, negated when the sign is set), an infinity or a NaN; \<^verbatim>\<open>json.loads\<close>
  produces all three kinds. Every double is such a triple with \<open>m < 2 ^ 53\<close>; the model
  does not bound \<open>m\<close> and \<open>e\<close>.
\<close>

datatype pyfloat = Finite (negative: bool) (mantissa: nat) (exponent: int) | Infinity bool | NaN

text \<open>What \<^verbatim>\<open>response.json()\<close> returns. An object is the list of its members, one per key.\<close>

datatype pyval =
    PyNone
  | PyBool bool
  | PyInt int
  | PyFloat pyfloat
  | PyStr string
  | PyList "pyval list"
  | PyDict "(string \<times> pyval) list"

fun type_name :: "pyval \<Rightarrow> string" where
  "type_name PyNone = ''NoneType''"
| "type_name (PyBool b) = ''bool''"
| "type_name (PyInt n) = ''int''"
| "type_name (PyFloat x) = ''float''"
| "type_name (PyStr s) = ''str''"
| "type_name (PyList xs) = ''list''"
| "type_name (PyDict kvs) = ''dict''"

text \<open>\<^verbatim>\<open>obj.get(key, default)\<close>: a dict method; on any other JSON value the attribute
  lookup raises \<^verbatim>\<open>AttributeError\<close>.\<close>

fun py_get :: "pyval \<Rightarrow> string \<Rightarrow> pyval \<Rightarrow> exn + pyval" where
  "py_get (PyDict kvs) key dflt = Inr (case map_of kvs key of Some v \<Rightarrow> v | None \<Rightarrow> dflt)"
| "py_get obj key dflt =
     Inl (Exception (CHR 0x27 # type_name obj @ CHR 0x27 # '' object has no attribute 'get'' @ [CHR 0x27]))"

text \<open>Truth value testing, as \<^verbatim>\<open>if vnd_rate:\<close> applies it.\<close>

fun truthy :: "pyval \<Rightarrow> bool" where
  "truthy PyNone = False"
| "truthy (PyBool b) = b"
| "truthy (PyInt n) = (n \<noteq> 0)"
| "truthy (PyFloat (Finite s m e)) = (m \<noteq> 0)"
| "truthy (PyFloat (Infinity s)) = True"
| "truthy (PyFloat NaN) = True"
| "truthy (PyStr s) = (s \<noteq> [])"
| "truthy (PyList xs) = (xs \<noteq> [])"
| "truthy (PyDict kvs) = (kvs \<noteq> [])"

subsection \<open>The format specification \<^verbatim>\<open>,.2f\<close>\<close>

text \<open>\<^verbatim>\<open>int.bit_length()\<close>.\<close>

fun bit_length :: "nat \<Rightarrow> nat" where
  "bit_length n = (if n = 0 then 0 else Suc (bit_length (n div 2)))"

declare bit_length.simps [simp del]

text \<open>
  An \<^verbatim>\<open>int\<close> formatted with type \<^verbatim>\<open>f\<close> is converted to \<^verbatim>\<open>float\<close> first: exact below
  \<open>2 ^ 53\<close>, otherwise rounded to 53 significant bits, ties to even, and
  \<^verbatim>\<open>OverflowError\<close> when the rounded value does not fit a double.
\<close>

definition float_of_int :: "int \<Rightarrow> exn + pyfloat" where
  "float_of_int n =
     (let a = nat \<bar>n\<bar> in
      if a < 2 ^ 53 then Inr (Finite (n < 0) a 0)
      else
        (let k = bit_length a - 53;
             q = a div 2 ^ k;
             r = a mod 2 ^ k;
             q' = (if 2 ^ k < 2 * r \<or> (2 * r = 2 ^ k \<and> odd q) then Suc q else q)
         in if 2 ^ 1024 \<le> q' * 2 ^ k then Inl (Exception ''int too large to convert to float'')
            else Inr (Finite (n < 0) q' (int k))))"

text \<open>The magnitude \<open>m * 2 ^ e\<close> in hundredths, correctly rounded, ties to even.\<close>

definition hundredths :: "nat \<Rightarrow> int \<Rightarrow> nat" where
  "hundredths m e =
     (if 0 \<le> e then m * 2 ^ nat e * 100
      else
        (let d = 2 ^ nat (- e);
             q = (m * 100) div d;
             r = (m * 100) mod d
         in if d < 2 * r \<or> (2 * r = d \<and> odd q) then Suc q else q))"

text \<open>The thousands separator: a comma before every group of three digits, counted
  from the right.\<close>

function group3 :: "string \<Rightarrow> string" where
  "group3 ds =
     (if length ds \<le> 3 then ds
      else group3 (take (length ds - 3) ds) @ CHR '','' # drop (length ds - 3) ds)"
  by pat_completeness auto
termination
  by (relation "measure length") auto

declare group3.simps [simp del]

fun format_float :: "pyfloat \<Rightarrow> string" where
  "format_float (Finite s m e) =
     (let c = hundredths m e in
      (if s then ''-'' else []) @ group3 (digits10 (c div 100)) @ ''.'' @
      [digit_char (c div 10 mod 10), digit_char (c mod 10)])"
| "format_float (Infinity s) = (if s then ''-inf'' else ''inf'')"
| "format_float NaN = ''nan''"

text \<open>\<^verbatim>\<open>f"{vnd_rate:,.2f}"\<close> on a parsed JSON value.\<close>

fun format_2f :: "pyval \<Rightarrow> exn + string" where
  "format_2f (PyFloat x) = Inr (format_float x)"
| "format_2f (PyInt n) =
     (case float_of_int n of Inl e \<Rightarrow> Inl e | Inr x \<Rightarrow> Inr (format_float x))"
| "format_2f (PyBool b) = Inr (format_float (Finite False (if b then 1 else 0) 0))"
| "format_2f (PyStr s) =
     Inl (Exception (''Unknown format code 'f' for object of type 'str'' @ [CHR 0x27]))"
| "format_2f obj =
     Inl (Exception (''unsupported format string passed to '' @ type_name obj @ ''.__format__''))"

subsection \<open>The fetch\<close>

text \<open>
  The body of the \<^verbatim>\<open>try\<close> block. \<open>str\<close> is Python's \<^verbatim>\<open>str()\<close> on a parsed JSON value,
  which the f-string applies to the \<^verbatim>\<open>'error-type'\<close> entry; it is a parameter.
\<close>

definition api_try :: "(pyval \<Rightarrow> string) \<Rightarrow> pyval upstream \<Rightarrow> exn + rate_result" where
  "api_try str up =
     (case up of
        Inl e \<Rightarrow> Inl e
      | Inr response \<Rightarrow>
          if status response = 200 then
            (case payload response of
               Inl e \<Rightarrow> Inl e
             | Inr data \<Rightarrow>
                 (case py_get data ''result'' PyNone of
                    Inl e \<Rightarrow> Inl e
                  | Inr result \<Rightarrow>
                      if result = PyStr ''success'' then
                        (case py_get data ''rates'' (PyDict []) of
                           Inl e \<Rightarrow> Inl e
                         | Inr rates \<Rightarrow>
                             (case py_get rates ''VND'' PyNone of
                                Inl e \<Rightarrow> Inl e
                              | Inr vnd_rate \<Rightarrow>
                                  if truthy vnd_rate then
                                    (case format_2f vnd_rate of
                                       Inl e \<Rightarrow> Inl e
                                     | Inr formatted_rate \<Rightarrow>
                                         Inr \<lparr>success = True, rate = Some formatted_rate,
                                              currency = Some ''AUD'',
                                              source = Some ''Global Market Rate'',
                                              error = None\<rparr>)
                                  else Inr (failure ''VND rate not found in API response'')))
                      else
                        (case py_get data ''error-type'' (PyStr ''Unknown error'') of
                           Inl e \<Rightarrow> Inl e
                         | Inr error_type \<Rightarrow> Inr (failure (''API error: '' @ str error_type)))))
          else Inr (failure (''Failed to fetch rate. HTTP Status: '' @ str_int (status response))))"

definition scrape_aud_rate ::
    "(pyval \<Rightarrow> string) \<Rightarrow> pyval network \<Rightarrow> rate_result \<times> pyval network" where
  "scrape_aud_rate str net =
     (let (up, net') = session_get net in (handle_exn (api_try str up), net'))"

section \<open>The subscriber store\<close>

text \<open>
  \<^verbatim>\<open>subscribers.json\<close> as \<^verbatim>\<open>json.load\<close> sees it. \<^verbatim>\<open>json.dump\<close> and \<^verbatim>\<open>json.load\<close> are
  library code: the model keeps the JSON document, not its text. An array of integers is
  kept up to the order of its entries (\<^verbatim>\<open>list(subscribed_users)\<close> has the order of the
  set's iteration, which Python leaves open, and \<^verbatim>\<open>set(...)\<close> forgets it again).
  The two other documents are those on which \<^verbatim>\<open>set(json.load(f))\<close> raises
  \<^verbatim>\<open>TypeError\<close>. A document that would put members other than integers into the set
  (a string, an object, an array of strings) is outside the model.
\<close>

datatype document =
    Id_array "int multiset"
  | Not_iterable
  | Unhashable_array

text \<open>The file is absent, holds text that is not JSON (also an empty or a cut-off
  file), or holds a document.\<close>

datatype file_state = Missing | Unparseable | Holds document

text \<open>The global \<^verbatim>\<open>subscribed_users\<close> and the file, together.\<close>

record store =
  subscribed_users :: "int set"
  subscribers_file :: file_state

text \<open>
  \<open>read_fails\<close>: \<^verbatim>\<open>open\<close> or the read raises \<^verbatim>\<open>OSError\<close> although the file exists.
  A missing file leaves the set as it is.
\<close>

definition load_subscribers :: "bool \<Rightarrow> store \<Rightarrow> store" where
  "load_subscribers read_fails st =
     (case subscribers_file st of
        Missing \<Rightarrow> st
      | Unparseable \<Rightarrow> st\<lparr>subscribed_users := {}\<rparr>
      | Holds doc \<Rightarrow>
          if read_fails then st\<lparr>subscribed_users := {}\<rparr>
          else
            (case doc of
               Id_array ids \<Rightarrow> st\<lparr>subscribed_users := set_mset ids\<rparr>
             | Not_iterable \<Rightarrow> st\<lparr>subscribed_users := {}\<rparr>
             | Unhashable_array \<Rightarrow> st\<lparr>subscribed_users := {}\<rparr>))"

text \<open>
  What the operating system does with the write: it goes through; \<^verbatim>\<open>open(..., 'w')\<close>
  raises and the file is untouched; or the file is truncated and the write raises
  before the document is complete. The exception is logged and swallowed.
\<close>

datatype write_io = Write_ok | Open_fails | Dump_fails

definition save_subscribers :: "write_io \<Rightarrow> store \<Rightarrow> store" where
  "save_subscribers io st =
     (case io of
        Write_ok \<Rightarrow> st\<lparr>subscribers_file := Holds (Id_array (mset_set (subscribed_users st)))\<rparr>
      | Open_fails \<Rightarrow> st
      | Dump_fails \<Rightarrow> st\<lparr>subscribers_file := Unparseable\<rparr>)"

text \<open>The four replies of the two handlers, by the branch that sends them.\<close>

datatype reply = Already_subscribed | Successfully_subscribed | Successfully_unsubscribed | Not_subscribed

definition subscribe_command :: "write_io \<Rightarrow> int \<Rightarrow> store \<Rightarrow> reply \<times> store" where
  "subscribe_command io user_id st =
     (if user_id \<in> subscribed_users st then (Already_subscribed, st)
      else (Successfully_subscribed,
            save_subscribers io (st\<lparr>subscribed_users := insert user_id (subscribed_users st)\<rparr>)))"

definition unsubscribe_command :: "write_io \<Rightarrow> int \<Rightarrow> store \<Rightarrow> reply \<times> store" where
  "unsubscribe_command io user_id st =
     (if user_id \<in> subscribed_users st then
        (Successfully_unsubscribed,
         save_subscribers io (st\<lparr>subscribed_users := subscribed_users st - {user_id}\<rparr>))
      else (Not_subscribed, st))"

text \<open>The spec's \<open>add(id)\<close> and \<open>remove(id)\<close> return whether the set changed.\<close>

definition newly_added :: "reply \<Rightarrow> bool" where
  "newly_added r = (r = Successfully_subscribed)"

definition was_removed :: "reply \<Rightarrow> bool" where
  "was_removed r = (r = Successfully_unsubscribed)"

text \<open>The number of identifiers the file holds.\<close>

fun persisted_card :: "file_state \<Rightarrow> nat" where
  "persisted_card (Holds (Id_array ids)) = card (set_mset ids)"
| "persisted_card f = 0"

section \<open>The broadcast\<close>

text \<open>
  The delivery loop of \<^verbatim>\<open>send_daily_rate\<close>, the same in both files. \<open>faults\<close> gives, for
  each recipient, the exception \<^verbatim>\<open>bot.send_message\<close> raises for them, if any. The two
  counters are what the final log line reports; \<open>attempted\<close> and \<open>delivered\<close> record the
  calls of \<^verbatim>\<open>send_message\<close> and those that went through.
\<close>

record tally =
  success_count :: nat
  failed_count :: nat
  attempted :: "int list"
  delivered :: "(int \<times> string) list"

fun deliver_loop :: "(int \<Rightarrow> exn option) \<Rightarrow> string \<Rightarrow> int list \<Rightarrow> tally \<Rightarrow> tally" where
  "deliver_loop faults message [] t = t"
| "deliver_loop faults message (user_id # rest) t =
     (case faults user_id of
        None \<Rightarrow>
          deliver_loop faults message rest
            (t\<lparr>success_count := success_count t + 1,
               attempted := attempted t @ [user_id],
               delivered := delivered t @ [(user_id, message)]\<rparr>)
      | Some e \<Rightarrow>
          deliver_loop faults message rest
            (t\<lparr>failed_count := failed_count t + 1,
               attempted := attempted t @ [user_id]\<rparr>))"

text \<open>
  \<open>at_entry\<close> is \<^verbatim>\<open>subscribed_users\<close> when the job starts, \<open>snapshot\<close> is
  \<^verbatim>\<open>subscribed_users.copy()\<close> in the order the loop iterates it, and \<open>message\<close> the text
  built from the fetch result in between. With no subscriber at entry the job returns
  before it fetches or counts anything.
\<close>

definition send_daily_rate ::
    "(int \<Rightarrow> exn option) \<Rightarrow> string \<Rightarrow> int set \<Rightarrow> int list \<Rightarrow> tally option" where
  "send_daily_rate faults message at_entry snapshot =
     (if at_entry = {} then None
      else Some (deliver_loop faults message snapshot
                   \<lparr>success_count = 0, failed_count = 0, attempted = [], delivered = []\<rparr>))"

section \<open>Two decimal places and thousands separators, as the spec words it\<close>

text \<open>The digit a character stands for, and the number a string of digits writes.\<close>

definition digit_value :: "char \<Rightarrow> nat" where
  "digit_value c = of_char c - 48"

definition digits_value :: "string \<Rightarrow> nat" where
  "digits_value ds = foldl (\<lambda>a c. 10 * a + digit_value c) 0 ds"

text \<open>A grouped integer part, read from the right: three digits, a comma, three
  digits, a comma, ..., and one to three digits at the front.\<close>

definition ungroup :: "string \<Rightarrow> string" where
  "ungroup s = filter (\<lambda>c. c \<noteq> CHR '','') s"

fun grouped_rev :: "string \<Rightarrow> bool" where
  "grouped_rev (a # b # c # d # rest) =
     (is_digit a \<and> is_digit b \<and> is_digit c \<and> d = CHR '','' \<and> grouped_rev rest)"
| "grouped_rev ds = (ds \<noteq> [] \<and> (\<forall>c \<in> set ds. is_digit c))"

definition thousands_grouped :: "string \<Rightarrow> bool" where
  "thousands_grouped s = grouped_rev (rev s)"


text \<open>The number a parsed JSON number stands for.\<close>

definition magnitude :: "nat \<Rightarrow> int \<Rightarrow> rat" where
  "magnitude m e = (if 0 \<le> e then of_nat m * 2 ^ nat e else of_nat m / 2 ^ nat (- e))"

fun number_value :: "pyval \<Rightarrow> rat" where
  "number_value (PyInt n) = of_int n"
| "number_value (PyFloat (Finite s m e)) = (if s then - magnitude m e else magnitude m e)"
| "number_value v = 0"

text \<open>
  \<open>s\<close> writes \<open>x\<close> with thousands separators and exactly two decimals: a minus sign
  when \<open>x\<close> is negative, a grouped integer part, a dot and two digits, and the number
  written is within half a hundredth of \<open>x\<close>.
\<close>

definition two_decimals :: "rat \<Rightarrow> string \<Rightarrow> bool" where
  "two_decimals x s =
     (\<exists>ip d1 d2.
        s = (if x < 0 then ''-'' else []) @ ip @ ''.'' @ [d1, d2] \<and>
        thousands_grouped ip \<and> is_digit d1 \<and> is_digit d2 \<and>
        \<bar>of_nat (digits_value (ungroup ip)) + of_nat (digits_value [d1, d2]) / 100 - \<bar>x\<bar>\<bar> \<le> 1 / 200)"

section \<open>Concrete inputs\<close>

text \<open>The row of the spec's example, and a page whose table is that row alone.\<close>

definition aud_row :: "string list" where
  "aud_row = [''AUD'', ''Australian Dollar'', ''X'', ''X'', ''X'', ''16,500.50'', ''X'']"

definition aud_network :: "page network" where
  "aud_network = \<lparr>replies = (\<lambda>n. Inr (Response 200 (Inr (Some [aud_row])))), requests = 0\<rparr>"

text \<open>A page whose only AUD row has no rate in its sixth cell.\<close>

definition blank_row :: "string list" where
  "blank_row = [''aud (Australia)'', ''Australian Dollar'', ''-'', ''-'', ''-'', ''N/A'']"


text \<open>A delivery assignment under which recipient 202 has blocked the bot.\<close>

definition blocked_second :: "int \<Rightarrow> exn option" where
  "blocked_second u =
     (if u = 202 then Some (Exception ''Forbidden: bot was blocked by the user'') else None)"

text \<open>Three stores: one that already holds 7, one that does not, and one whose file is
  not JSON.\<close>

definition seven_only :: store where
  "seven_only = \<lparr>subscribed_users = {7}, subscribers_file = Holds (Id_array {#7#})\<rparr>"

definition fresh_store :: store where
  "fresh_store = \<lparr>subscribed_users = {3, 5}, subscribers_file = Holds (Id_array {#3, 5#})\<rparr>"


text \<open>Upstream behaviours: a timeout, a page without a table, an HTTP 503, an API error
  report, and a rates mapping without VND; and a stand-in for \<^verbatim>\<open>str()\<close>.\<close>

definition timeout_network :: "page network" where
  "timeout_network = \<lparr>replies = (\<lambda>n. Inl TimeoutError), requests = 4\<rparr>"

definition no_table_network :: "page network" where
  "no_table_network = \<lparr>replies = (\<lambda>n. Inr (Response 200 (Inr None))), requests = 0\<rparr>"

definition unavailable_api :: "pyval network" where
  "unavailable_api = \<lparr>replies = (\<lambda>n. Inr (Response 503 (Inl (Exception ''unread'')))), requests = 0\<rparr>"

definition quota_api :: "pyval network" where
  "quota_api =
     \<lparr>replies = (\<lambda>n. Inr (Response 200 (Inr (PyDict
          [(''result'', PyStr ''error''), (''error-type'', PyStr ''quota-reached'')])))),
      requests = 0\<rparr>"

definition no_vnd_api :: "pyval network" where
  "no_vnd_api =
     \<lparr>replies = (\<lambda>n. Inr (Response 200 (Inr (PyDict
          [(''result'', PyStr ''success''), (''rates'', PyDict [(''USD'', PyFloat (Finite False 5 (- 3)))])])))),
      requests = 0\<rparr>"

definition str_of_text :: "pyval \<Rightarrow> string" where
  "str_of_text v = (case v of PyStr s \<Rightarrow> s | _ \<Rightarrow> ''?'')"

text \<open>Two well-formed API responses: a VND rate of zero, and one of 16500.5.\<close>

definition zero_vnd_api :: "pyval network" where
  "zero_vnd_api =
     \<lparr>replies = (\<lambda>n. Inr (Response 200 (Inr (PyDict
          [(''result'', PyStr ''success''), (''rates'', PyDict [(''VND'', PyInt 0)])])))),
      requests = 0\<rparr>"

definition vnd_api :: "pyval network" where
  "vnd_api =
     \<lparr>replies = (\<lambda>n. Inr (Response 200 (Inr (PyDict
          [(''result'', PyStr ''success''),
           (''rates'', PyDict [(''USD'', PyFloat (Finite False 5 (- 3))),
                               (''VND'', PyFloat (Finite False 33001 (- 1)))])])))),
      requests = 0\<rparr>"

section \<open>Properties of the markup-scrape strategy\<close>




text \<open>
  So the comparison with the placeholder, made after the cleaning, never fires: a sixth
  cell that reads \<^verbatim>\<open>webgia.com\<close> is cleaned to a single dot, which passes both tests.
\<close>

lemma placeholder_cell_cleaned_to_dot:
  "clean_rate ''webgia.com'' = ''.''"
  "scan_rows [[''AUD'', ''Australian Dollar'', ''-'', ''-'', ''-'', ''webgia.com'']] = Some ''.''"
  by (simp_all add: clean_rate_def is_digit_def upper_def upper_char_def)



lemma scan_rows_skip:
  "scan_rows pre = None \<Longrightarrow> scan_rows (pre @ rows) = scan_rows rows"
  by (induction pre) (auto simp: Let_def split: if_splits)

lemma scrape_webgia_table:
  "replies net (requests net) = Inr (Response 200 (Inr (Some rows))) \<Longrightarrow>
   fst (scrape_aud_rate_webgia net) =
     (case scan_rows rows of
        Some r \<Rightarrow> \<lparr>success = True, rate = Some r, currency = Some ''AUD'', source = None, error = None\<rparr>
      | None \<Rightarrow> failure ''AUD rate not found in the table. The website might have changed its structure.'')"
  by (simp add: scrape_aud_rate_webgia_def session_get_def webgia_try_def handle_exn_def
      split: option.splits)

lemma scan_rows_aud_row: "scan_rows (aud_row # post) = Some ''16,500.50''"
  by (simp add: aud_row_def upper_def upper_char_def clean_rate_def is_digit_def)

lemma scan_rows_blank_row: "scan_rows [blank_row] = None"
  by (simp add: blank_row_def upper_def upper_char_def clean_rate_def is_digit_def)



text \<open>
  Claim C2, as stated, fails: for the row of the example the rate is not \<^verbatim>\<open>16500.50\<close>.
\<close>

theorem markup_row_commas_removed_counterexample:
  "rate (fst (scrape_aud_rate_webgia aud_network)) \<noteq> Some ''16500.50''"
proof -
  have "replies aud_network (requests aud_network) = Inr (Response 200 (Inr (Some [aud_row])))"
    by (simp add: aud_network_def)
  then show ?thesis by (simp add: scrape_webgia_table scan_rows_aud_row del: scan_rows.simps)
qed

text \<open>
  Claim C2, amended. When the example row is the first usable row of the table, the
  fetch succeeds and the rate is the sixth cell with its comma and its dot kept,
  \<^verbatim>\<open>16,500.50\<close>: the cleaning deletes every character other than digits, commas and dots.
\<close>

theorem markup_row_commas_kept:
  assumes "replies net (requests net) = Inr (Response 200 (Inr (Some (pre @ aud_row # post))))"
    and "scan_rows pre = None"
  shows "fst (scrape_aud_rate_webgia net) =
     \<lparr>success = True, rate = Some ''16,500.50'', currency = Some ''AUD'', source = None, error = None\<rparr>"
  using assms by (simp add: scrape_webgia_table scan_rows_skip scan_rows_aud_row del: scan_rows.simps)

theorem markup_row_commas_kept_witness:
  "fst (scrape_aud_rate_webgia aud_network) =
     \<lparr>success = True, rate = Some ''16,500.50'', currency = Some ''AUD'', source = None, error = None\<rparr>"
proof -
  have "replies aud_network (requests aud_network) = Inr (Response 200 (Inr (Some ([] @ aud_row # []))))"
    by (simp add: aud_network_def)
  moreover have "scan_rows [] = None" by simp
  ultimately show ?thesis by (rule markup_row_commas_kept)
qed

section \<open>Properties of the broadcast and of the subscriber store\<close>

lemma deliver_loop_tally:
  "deliver_loop faults message us t =
     \<lparr>success_count = success_count t + length (filter (\<lambda>u. faults u = None) us),
      failed_count = failed_count t + length (filter (\<lambda>u. faults u \<noteq> None) us),
      attempted = attempted t @ us,
      delivered = delivered t @ map (\<lambda>u. (u, message)) (filter (\<lambda>u. faults u = None) us)\<rparr>"
  by (induction us arbitrary: t) (auto split: option.splits)

lemma send_daily_rate_tally:
  "send_daily_rate faults message at_entry snapshot =
     (if at_entry = {} then None
      else Some \<lparr>success_count = length (filter (\<lambda>u. faults u = None) snapshot),
                 failed_count = length (filter (\<lambda>u. faults u \<noteq> None) snapshot),
                 attempted = snapshot,
                 delivered = map (\<lambda>u. (u, message)) (filter (\<lambda>u. faults u = None) snapshot)\<rparr>)"
  by (simp add: send_daily_rate_def deliver_loop_tally)

lemma count_list_distinct:
  "distinct xs \<Longrightarrow> x \<in> set xs \<Longrightarrow> count_list xs x = 1"
  by (induction xs) auto

lemma length_filter_split:
  "length (filter P xs) + length (filter (\<lambda>x. \<not> P x) xs) = length xs"
  by (induction xs) auto

text \<open>
  Claim C4. With no subscriber the job returns at once. Otherwise, whatever the
  snapshot and whichever recipients fail, \<^verbatim>\<open>send_message\<close> is called for every recipient
  of the snapshot, in order; exactly those whose send does not raise receive the message;
  the two counters are the numbers of sends that went through and that raised. In
  particular a snapshot of three recipients of which one fails gives 2 and 1, wherever
  the failing recipient stands.
\<close>

theorem broadcast_isolates_failures:
  "(at_entry = {} \<longrightarrow> send_daily_rate faults message at_entry snapshot = None) \<and>
   (at_entry \<noteq> {} \<longrightarrow>
     (\<exists>t. send_daily_rate faults message at_entry snapshot = Some t \<and>
           attempted t = snapshot \<and>
           map fst (delivered t) = filter (\<lambda>u. faults u = None) snapshot \<and>
           (\<forall>m \<in> snd ` set (delivered t). m = message) \<and>
           success_count t = length (filter (\<lambda>u. faults u = None) snapshot) \<and>
           failed_count t = length (filter (\<lambda>u. faults u \<noteq> None) snapshot) \<and>
           (length snapshot = 3 \<and> length (filter (\<lambda>u. faults u \<noteq> None) snapshot) = 1 \<longrightarrow>
              success_count t = 2 \<and> failed_count t = 1)))"
proof -
  have "length (filter (\<lambda>u. faults u = None) snapshot) +
        length (filter (\<lambda>u. faults u \<noteq> None) snapshot) = length snapshot"
    by (rule length_filter_split)
  then show ?thesis
    by (auto simp: send_daily_rate_tally comp_def)
qed

theorem broadcast_isolates_failures_witness:
  "(\<exists>t. send_daily_rate blocked_second ''rate'' {101, 202, 303} [101, 202, 303] = Some t \<and>
        attempted t = [101, 202, 303] \<and> map fst (delivered t) = [101, 303] \<and>
        success_count t = 2 \<and> failed_count t = 1) \<and>
   (\<exists>t. send_daily_rate blocked_second ''rate'' {101, 202, 303} [202, 303, 101] = Some t \<and>
        attempted t = [202, 303, 101] \<and> map fst (delivered t) = [303, 101] \<and>
        success_count t = 2 \<and> failed_count t = 1)"
proof -
  have ne: "{101, 202, 303 :: int} \<noteq> {}" by simp
  have a: "length [101, 202, 303 :: int] = 3 \<and>
      length (filter (\<lambda>u. blocked_second u \<noteq> None) [101, 202, 303]) = 1"
    "filter (\<lambda>u. blocked_second u = None) [101, 202, 303] = [101, 303]"
    by (simp_all add: blocked_second_def)
  have b: "length [202, 303, 101 :: int] = 3 \<and>
      length (filter (\<lambda>u. blocked_second u \<noteq> None) [202, 303, 101]) = 1"
    "filter (\<lambda>u. blocked_second u = None) [202, 303, 101] = [303, 101]"
    by (simp_all add: blocked_second_def)
  show ?thesis
    using broadcast_isolates_failures [of "{101, 202, 303}" blocked_second "''rate''" "[101, 202, 303]"]
      broadcast_isolates_failures [of "{101, 202, 303}" blocked_second "''rate''" "[202, 303, 101]"]
      ne a b
    by auto
qed

text \<open>
  Claim C10. For a non-empty subscriber set, the two counters add up to the number of
  recipients in the snapshot; every recipient of the snapshot is attempted exactly once
  and is counted either as a success or as a failure.
\<close>

theorem broadcast_counts_every_recipient:
  assumes "at_entry \<noteq> {}" and "distinct snapshot"
  shows "\<exists>t. send_daily_rate faults message at_entry snapshot = Some t \<and>
           success_count t + failed_count t = length snapshot \<and>
           length snapshot = card (set snapshot) \<and>
           (\<forall>u \<in> set snapshot. count_list (attempted t) u = 1) \<and>
           set (attempted t) = set snapshot \<and>
           success_count t = card {u \<in> set snapshot. faults u = None} \<and>
           failed_count t = card {u \<in> set snapshot. faults u \<noteq> None}"
proof -
  have sum: "length (filter (\<lambda>u. faults u = None) snapshot) +
        length (filter (\<lambda>u. faults u \<noteq> None) snapshot) = length snapshot"
    by (rule length_filter_split)
  have once: "\<forall>u \<in> set snapshot. count_list snapshot u = 1"
    using assms(2) by (simp add: count_list_distinct)
  have c1: "length (filter (\<lambda>u. faults u = None) snapshot) = card {u \<in> set snapshot. faults u = None}"
    using assms(2) distinct_length_filter [of snapshot "\<lambda>u. faults u = None"]
    by (simp add: Int_def conj_commute)
  have c2: "length (filter (\<lambda>u. faults u \<noteq> None) snapshot) = card {u \<in> set snapshot. faults u \<noteq> None}"
    using assms(2) distinct_length_filter [of snapshot "\<lambda>u. faults u \<noteq> None"]
    by (simp add: Int_def conj_commute)
  show ?thesis using assms sum once c1 c2
    by (simp add: send_daily_rate_tally distinct_card)
qed

theorem broadcast_counts_every_recipient_witness:
  "\<exists>t. send_daily_rate blocked_second ''rate'' {101, 202, 303} [303, 101, 202] = Some t \<and>
        success_count t + failed_count t = 3"
proof -
  have ne: "{101, 202, 303 :: int} \<noteq> {}" by simp
  have d: "distinct [303, 101, 202 :: int]" by simp
  from broadcast_counts_every_recipient [OF ne d, of blocked_second "''rate''"]
  show ?thesis by auto
qed

text \<open>
  Claim C5. A save of a finite set \<open>S\<close> whose write goes through, followed by a load
  whose read goes through, gives \<open>S\<close>, whatever the file held before and whatever the
  set in memory is when the load runs.
\<close>

theorem save_load_round_trip:
  assumes "finite S"
  shows "subscribed_users
           (load_subscribers False
              ((save_subscribers Write_ok \<lparr>subscribed_users = S, subscribers_file = f\<rparr>)
                 \<lparr>subscribed_users := M\<rparr>)) = S"
  using assms by (simp add: load_subscribers_def save_subscribers_def)

theorem save_load_round_trip_witness:
  "subscribed_users
     (load_subscribers False
        ((save_subscribers Write_ok \<lparr>subscribed_users = {3, 5}, subscribers_file = Missing\<rparr>)
           \<lparr>subscribed_users := {}\<rparr>)) = {3, 5}"
proof -
  have "finite {3, 5 :: int}" by simp
  then show ?thesis by (rule save_load_round_trip)
qed

text \<open>
  Claim C7, as stated, fails: in a state that already holds the identifier the first
  call does not add it.
\<close>

theorem add_present_id_counterexample:
  "\<not> newly_added (fst (subscribe_command Write_ok 7 seven_only))"
  by (simp add: subscribe_command_def seven_only_def newly_added_def)

text \<open>
  Claim C7, amended. For an identifier that is not yet subscribed (and a write that goes
  through), the first \<^verbatim>\<open>/subscribe\<close> adds it and writes the enlarged set to the file; the
  second one adds nothing and leaves memory and file, hence the number of persisted
  identifiers, as they were.
\<close>

theorem add_twice:
  assumes "user_id \<notin> subscribed_users st" and "finite (subscribed_users st)"
  shows "case subscribe_command Write_ok user_id st of (r1, st1) \<Rightarrow>
           case subscribe_command io user_id st1 of (r2, st2) \<Rightarrow>
             newly_added r1 \<and>
             subscribed_users st1 = insert user_id (subscribed_users st) \<and>
             subscribers_file st1 = Holds (Id_array (mset_set (insert user_id (subscribed_users st)))) \<and>
             persisted_card (subscribers_file st1) = Suc (card (subscribed_users st)) \<and>
             \<not> newly_added r2 \<and>
             st2 = st1 \<and>
             persisted_card (subscribers_file st2) = persisted_card (subscribers_file st1)"
  using assms
  by (simp add: subscribe_command_def save_subscribers_def newly_added_def)

theorem add_twice_witness:
  "case subscribe_command Write_ok 7 fresh_store of (r1, st1) \<Rightarrow>
     case subscribe_command Write_ok 7 st1 of (r2, st2) \<Rightarrow>
       newly_added r1 \<and> \<not> newly_added r2 \<and>
       persisted_card (subscribers_file st1) = 3 \<and> persisted_card (subscribers_file st2) = 3"
proof -
  have a: "7 \<notin> subscribed_users fresh_store" by (simp add: fresh_store_def)
  have b: "finite (subscribed_users fresh_store)" by (simp add: fresh_store_def)
  have c: "card (subscribed_users fresh_store) = 2" by (simp add: fresh_store_def)
  show ?thesis using add_twice [OF a b, of Write_ok] c
    by (auto split: prod.splits)
qed

text \<open>
  Claim C8. \<^verbatim>\<open>/unsubscribe\<close> for an identifier that is not subscribed removes nothing and
  leaves the set and the file unchanged; no save runs, so the outcome of a write plays
  no part.
\<close>

theorem remove_absent_id:
  assumes "user_id \<notin> subscribed_users st"
  shows "unsubscribe_command io user_id st = (Not_subscribed, st) \<and>
         \<not> was_removed (fst (unsubscribe_command io user_id st))"
  using assms by (simp add: unsubscribe_command_def was_removed_def)

theorem remove_absent_id_witness:
  "unsubscribe_command Dump_fails 7 fresh_store = (Not_subscribed, fresh_store)"
proof -
  have "7 \<notin> subscribed_users fresh_store" by (simp add: fresh_store_def)
  from remove_absent_id [OF this] show ?thesis by simp
qed



section \<open>Failure modes of the fetch\<close>

lemma failure_fields [simp]:
  "success (failure m) = False" "error (failure m) = Some m" "rate (failure m) = None"
  by (simp_all add: failure_def)

lemma handle_exn_failure:
  "\<not> success (handle_exn (Inl e)) \<and> (\<exists>m. error (handle_exn (Inl e)) = Some m \<and> m \<noteq> []) \<and>
   rate (handle_exn (Inl e)) = None"
  by (cases e) (simp_all add: handle_exn_def)

lemma webgia_try_shape:
  assumes h: "webgia_try up = Inr r"
  shows "(success r \<and> (\<exists>rows v. up = Inr (Response 200 (Inr (Some rows))) \<and>
         scan_rows rows = Some v \<and> rate r = Some v)) \<or>
     (\<not> success r \<and> (\<exists>m. error r = Some m \<and> m \<noteq> []) \<and> rate r = None)"
proof (cases up)
  case (Inl e)
  then show ?thesis using h by (simp add: webgia_try_def)
next
  case (Inr resp)
  obtain code body where resp: "resp = Response code body" by (cases resp)
  show ?thesis using h Inr resp
    by (auto simp: webgia_try_def split: sum.splits if_splits option.splits)
qed

lemma webgia_result_shape:
  "(success (fst (scrape_aud_rate_webgia net)) \<and>
      (\<exists>rows v. replies net (requests net) = Inr (Response 200 (Inr (Some rows))) \<and>
         scan_rows rows = Some v \<and> rate (fst (scrape_aud_rate_webgia net)) = Some v)) \<or>
   (\<not> success (fst (scrape_aud_rate_webgia net)) \<and>
      (\<exists>m. error (fst (scrape_aud_rate_webgia net)) = Some m \<and> m \<noteq> []) \<and>
      rate (fst (scrape_aud_rate_webgia net)) = None)"
proof (cases "webgia_try (replies net (requests net))")
  case (Inl e)
  then show ?thesis using handle_exn_failure [of e]
    by (simp add: scrape_aud_rate_webgia_def session_get_def)
next
  case (Inr r)
  then show ?thesis using webgia_try_shape [OF Inr]
    by (auto simp: scrape_aud_rate_webgia_def session_get_def handle_exn_def)
qed

lemma webgia_one_request:
  "snd (scrape_aud_rate_webgia net) = net\<lparr>requests := Suc (requests net)\<rparr>"
  by (simp add: scrape_aud_rate_webgia_def session_get_def)

lemma webgia_failure_modes:
  fixes net :: "page network"
  defines "r \<equiv> fst (scrape_aud_rate_webgia net)" and "up \<equiv> replies net (requests net)"
  shows "(up = Inl TimeoutError \<longrightarrow> r = failure ''Request timeout. Please try again later.'') \<and>
    (up = Inl (Exception msg) \<longrightarrow> r = failure (''Error: '' @ msg)) \<and>
    (up = Inr (Response code body) \<and> code \<noteq> 200 \<longrightarrow>
       r = failure (''Failed to fetch page. HTTP Status: '' @ str_int code)) \<and>
    (up = Inr (Response 200 (Inl TimeoutError)) \<longrightarrow>
       r = failure ''Request timeout. Please try again later.'') \<and>
    (up = Inr (Response 200 (Inl (Exception msg))) \<longrightarrow> r = failure (''Error: '' @ msg)) \<and>
    (up = Inr (Response 200 (Inr None)) \<longrightarrow> r = failure ''Exchange rate table not found on page'') \<and>
    (up = Inr (Response 200 (Inr (Some rows))) \<and> scan_rows rows = None \<longrightarrow>
       r = failure ''AUD rate not found in the table. The website might have changed its structure.'')"
  unfolding r_def up_def
  by (simp add: scrape_aud_rate_webgia_def session_get_def webgia_try_def handle_exn_def)


lemma py_get_other: "(\<forall>kvs. obj \<noteq> PyDict kvs) \<Longrightarrow> \<exists>m. py_get obj key dflt = Inl (Exception m)"
  by (cases obj) simp_all

lemma api_rates_shape:
  assumes h: "(case py_get rates ''VND'' PyNone of
                 Inl e \<Rightarrow> Inl e
               | Inr vnd_rate \<Rightarrow>
                   if truthy vnd_rate then
                     (case format_2f vnd_rate of
                        Inl e \<Rightarrow> Inl e
                      | Inr formatted_rate \<Rightarrow>
                          Inr \<lparr>success = True, rate = Some formatted_rate,
                               currency = Some ''AUD'',
                               source = Some ''Global Market Rate'',
                               error = None\<rparr>)
                   else Inr (failure ''VND rate not found in API response'')) = Inr r"
  shows "(success r \<and> (\<exists>v. rate r = Some v)) \<or>
         (\<not> success r \<and> (\<exists>m. error r = Some m \<and> m \<noteq> []) \<and> rate r = None)"
  using h by (auto split: sum.splits if_splits)

lemma api_try_shape:
  assumes h: "api_try str up = Inr r"
  shows "(success r \<and> (\<exists>v. rate r = Some v)) \<or>
     (\<not> success r \<and> (\<exists>m. error r = Some m \<and> m \<noteq> []) \<and> rate r = None)"
proof (cases up)
  case (Inl e)
  then show ?thesis using h by (simp add: api_try_def)
next
  case (Inr resp)
  obtain code body where resp: "resp = Response code body" by (cases resp)
  show ?thesis
  proof (cases "code = 200")
    case False
    then show ?thesis using h Inr resp by (auto simp: api_try_def)
  next
    case True
    show ?thesis
    proof (cases body)
      case (Inl e)
      then show ?thesis using h Inr resp True by (simp add: api_try_def)
    next
      case data: (Inr data)
      show ?thesis
      proof (cases "py_get data ''result'' PyNone")
        case (Inl e)
        then show ?thesis using h Inr resp True data by (simp add: api_try_def)
      next
        case res: (Inr result)
        show ?thesis
        proof (cases "result = PyStr ''success''")
          case False
          then show ?thesis using h Inr resp True data res
            by (auto simp: api_try_def split: sum.splits)
        next
          case ok: True
          show ?thesis
          proof (cases "py_get data ''rates'' (PyDict [])")
            case (Inl e)
            then show ?thesis using h Inr resp True data res ok by (simp add: api_try_def)
          next
            case rates: (Inr rates)
            show ?thesis
              using h Inr resp True data res ok rates
              by (intro api_rates_shape [of rates r]) (simp add: api_try_def)
          qed
        qed
      qed
    qed
  qed
qed

lemma api_result_shape:
  "(success (fst (scrape_aud_rate str net)) \<and> (\<exists>v. rate (fst (scrape_aud_rate str net)) = Some v)) \<or>
   (\<not> success (fst (scrape_aud_rate str net)) \<and>
      (\<exists>m. error (fst (scrape_aud_rate str net)) = Some m \<and> m \<noteq> []) \<and>
      rate (fst (scrape_aud_rate str net)) = None)"
proof (cases "api_try str (replies net (requests net))")
  case (Inl e)
  then show ?thesis using handle_exn_failure [of e]
    by (simp add: scrape_aud_rate_def session_get_def)
next
  case (Inr r)
  then show ?thesis using api_try_shape [OF Inr]
    by (auto simp: scrape_aud_rate_def session_get_def handle_exn_def)
qed

lemma api_one_request:
  "snd (scrape_aud_rate str net) = net\<lparr>requests := Suc (requests net)\<rparr>"
  by (simp add: scrape_aud_rate_def session_get_def)

lemma api_failure_modes:
  fixes net :: "pyval network" and str :: "pyval \<Rightarrow> string"
  defines "r \<equiv> fst (scrape_aud_rate str net)" and "up \<equiv> replies net (requests net)"
  shows "(up = Inl TimeoutError \<longrightarrow> r = failure ''Request timeout. Please try again later.'') \<and>
    (up = Inl (Exception msg) \<longrightarrow> r = failure (''Error: '' @ msg)) \<and>
    (up = Inr (Response code body) \<and> code \<noteq> 200 \<longrightarrow>
       r = failure (''Failed to fetch rate. HTTP Status: '' @ str_int code)) \<and>
    (up = Inr (Response 200 (Inl TimeoutError)) \<longrightarrow>
       r = failure ''Request timeout. Please try again later.'') \<and>
    (up = Inr (Response 200 (Inl (Exception msg))) \<longrightarrow> r = failure (''Error: '' @ msg)) \<and>
    (up = Inr (Response 200 (Inr data)) \<and> (\<forall>kvs. data \<noteq> PyDict kvs) \<longrightarrow>
       (\<exists>m. r = failure (''Error: '' @ m))) \<and>
    (up = Inr (Response 200 (Inr (PyDict kvs))) \<and> map_of kvs ''result'' \<noteq> Some (PyStr ''success'') \<longrightarrow>
       r = failure (''API error: '' @
             str (case map_of kvs ''error-type'' of Some v \<Rightarrow> v | None \<Rightarrow> PyStr ''Unknown error''))) \<and>
    (up = Inr (Response 200 (Inr (PyDict kvs))) \<and> map_of kvs ''result'' = Some (PyStr ''success'') \<and>
     (map_of kvs ''rates'' = None \<or>
      (\<exists>rates. map_of kvs ''rates'' = Some (PyDict rates) \<and>
         (case map_of rates ''VND'' of None \<Rightarrow> True | Some v \<Rightarrow> \<not> truthy v))) \<longrightarrow>
       r = failure ''VND rate not found in API response'')"
  unfolding r_def up_def
  apply (intro conjI impI)
         apply (simp_all add: scrape_aud_rate_def session_get_def api_try_def handle_exn_def)
    apply (cases data; simp)
   apply (auto split: option.splits)
  done


text \<open>
  Claim C6. Each fetch consumes exactly one upstream outcome (one request, no retry) and
  always returns a result. For each failure mode the result is a failure with its own
  message: a timeout or another exception of \<^verbatim>\<open>session.get\<close> or of reading and parsing
  the body; a status other than 200; a page without a table or without a usable AUD row;
  a JSON body that is not an object; a \<^verbatim>\<open>result\<close> other than \<^verbatim>\<open>success\<close>; a missing or
  falsy VND entry. Every result that is not a success carries a non-empty message and no
  rate, and the markup variant succeeds only on a 200 page with a usable AUD row. The
  first half is the markup-scrape variant, the second the structured-API variant.
\<close>

theorem fetch_failure_modes:
  fixes net :: "page network" and anet :: "pyval network" and str :: "pyval \<Rightarrow> string"
  defines "r \<equiv> fst (scrape_aud_rate_webgia net)" and "up \<equiv> replies net (requests net)"
    and "ar \<equiv> fst (scrape_aud_rate str anet)" and "aup \<equiv> replies anet (requests anet)"
  shows
   "snd (scrape_aud_rate_webgia net) = net\<lparr>requests := Suc (requests net)\<rparr> \<and>
    (up = Inl TimeoutError \<longrightarrow> r = failure ''Request timeout. Please try again later.'') \<and>
    (up = Inl (Exception msg) \<longrightarrow> r = failure (''Error: '' @ msg)) \<and>
    (up = Inr (Response code body) \<and> code \<noteq> 200 \<longrightarrow>
       r = failure (''Failed to fetch page. HTTP Status: '' @ str_int code)) \<and>
    (up = Inr (Response 200 (Inl TimeoutError)) \<longrightarrow>
       r = failure ''Request timeout. Please try again later.'') \<and>
    (up = Inr (Response 200 (Inl (Exception msg))) \<longrightarrow> r = failure (''Error: '' @ msg)) \<and>
    (up = Inr (Response 200 (Inr None)) \<longrightarrow> r = failure ''Exchange rate table not found on page'') \<and>
    (up = Inr (Response 200 (Inr (Some rows))) \<and> scan_rows rows = None \<longrightarrow>
       r = failure ''AUD rate not found in the table. The website might have changed its structure.'') \<and>
    ((success r \<and>
        (\<exists>rows v. up = Inr (Response 200 (Inr (Some rows))) \<and> scan_rows rows = Some v \<and> rate r = Some v)) \<or>
     (\<not> success r \<and> (\<exists>m. error r = Some m \<and> m \<noteq> []) \<and> rate r = None)) \<and>
    snd (scrape_aud_rate str anet) = anet\<lparr>requests := Suc (requests anet)\<rparr> \<and>
    (aup = Inl TimeoutError \<longrightarrow> ar = failure ''Request timeout. Please try again later.'') \<and>
    (aup = Inl (Exception amsg) \<longrightarrow> ar = failure (''Error: '' @ amsg)) \<and>
    (aup = Inr (Response acode abody) \<and> acode \<noteq> 200 \<longrightarrow>
       ar = failure (''Failed to fetch rate. HTTP Status: '' @ str_int acode)) \<and>
    (aup = Inr (Response 200 (Inl TimeoutError)) \<longrightarrow>
       ar = failure ''Request timeout. Please try again later.'') \<and>
    (aup = Inr (Response 200 (Inl (Exception amsg))) \<longrightarrow> ar = failure (''Error: '' @ amsg)) \<and>
    (aup = Inr (Response 200 (Inr data)) \<and> (\<forall>kvs. data \<noteq> PyDict kvs) \<longrightarrow>
       (\<exists>m. ar = failure (''Error: '' @ m))) \<and>
    (aup = Inr (Response 200 (Inr (PyDict kvs))) \<and> map_of kvs ''result'' \<noteq> Some (PyStr ''success'') \<longrightarrow>
       ar = failure (''API error: '' @
             str (case map_of kvs ''error-type'' of Some v \<Rightarrow> v | None \<Rightarrow> PyStr ''Unknown error''))) \<and>
    (aup = Inr (Response 200 (Inr (PyDict kvs))) \<and> map_of kvs ''result'' = Some (PyStr ''success'') \<and>
     (map_of kvs ''rates'' = None \<or>
      (\<exists>rates. map_of kvs ''rates'' = Some (PyDict rates) \<and>
         (case map_of rates ''VND'' of None \<Rightarrow> True | Some v \<Rightarrow> \<not> truthy v))) \<longrightarrow>
       ar = failure ''VND rate not found in API response'') \<and>
    ((success ar \<and> (\<exists>v. rate ar = Some v)) \<or>
     (\<not> success ar \<and> (\<exists>m. error ar = Some m \<and> m \<noteq> []) \<and> rate ar = None))"
proof -
  note w = webgia_failure_modes [where net = net and msg = msg and code = code and body = body
      and rows = rows, folded r_def up_def]
  note a = api_failure_modes [where net = anet and str = str and msg = amsg and code = acode
      and body = abody and data = data and kvs = kvs, folded ar_def aup_def]
  note ws = webgia_result_shape [of net, folded r_def up_def]
  note as = api_result_shape [of str anet, folded ar_def]
  show ?thesis
    using w a ws as webgia_one_request [of net] api_one_request [of str anet]
    by blast
qed


theorem fetch_failure_modes_witness:
  "fst (scrape_aud_rate_webgia timeout_network) = failure ''Request timeout. Please try again later.'' \<and>
   requests (snd (scrape_aud_rate_webgia timeout_network)) = 5 \<and>
   fst (scrape_aud_rate_webgia no_table_network) = failure ''Exchange rate table not found on page'' \<and>
   fst (scrape_aud_rate str_of_text unavailable_api) = failure ''Failed to fetch rate. HTTP Status: 503'' \<and>
   requests (snd (scrape_aud_rate str_of_text unavailable_api)) = 1 \<and>
   fst (scrape_aud_rate str_of_text quota_api) = failure ''API error: quota-reached'' \<and>
   fst (scrape_aud_rate str_of_text no_vnd_api) = failure ''VND rate not found in API response''"
proof -
  have t: "replies timeout_network (requests timeout_network) = Inl TimeoutError"
      "Suc (requests timeout_network) = 5"
    by (simp_all add: timeout_network_def)
  have n: "replies no_table_network (requests no_table_network) = Inr (Response 200 (Inr None))"
    by (simp add: no_table_network_def)
  have u: "replies unavailable_api (requests unavailable_api) =
             Inr (Response 503 (Inl (Exception ''unread''))) \<and> (503::int) \<noteq> 200"
      "Suc (requests unavailable_api) = 1" "str_int 503 = ''503''"
    by (simp_all add: unavailable_api_def str_int_def digits10.simps digit_char_def)
  have q: "replies quota_api (requests quota_api) =
             Inr (Response 200 (Inr (PyDict
               [(''result'', PyStr ''error''), (''error-type'', PyStr ''quota-reached'')]))) \<and>
           map_of [(''result'', PyStr ''error''), (''error-type'', PyStr ''quota-reached'')] ''result''
             \<noteq> Some (PyStr ''success'')"
      "str_of_text (case map_of [(''result'', PyStr ''error''), (''error-type'', PyStr ''quota-reached'')]
             ''error-type'' of Some v \<Rightarrow> v | None \<Rightarrow> PyStr ''Unknown error'') = ''quota-reached''"
    by (simp_all add: quota_api_def str_of_text_def)
  have v: "replies no_vnd_api (requests no_vnd_api) =
             Inr (Response 200 (Inr (PyDict
               [(''result'', PyStr ''success''),
                (''rates'', PyDict [(''USD'', PyFloat (Finite False 5 (- 3)))])]))) \<and>
           map_of [(''result'', PyStr ''success''),
                (''rates'', PyDict [(''USD'', PyFloat (Finite False 5 (- 3)))])] ''result''
             = Some (PyStr ''success'') \<and>
           (map_of [(''result'', PyStr ''success''),
                (''rates'', PyDict [(''USD'', PyFloat (Finite False 5 (- 3)))])] ''rates'' = None \<or>
            (\<exists>rates. map_of [(''result'', PyStr ''success''),
                (''rates'', PyDict [(''USD'', PyFloat (Finite False 5 (- 3)))])] ''rates''
                  = Some (PyDict rates) \<and>
               (case map_of rates ''VND'' of None \<Rightarrow> True | Some v \<Rightarrow> \<not> truthy v)))"
    by (simp add: no_vnd_api_def)
  note a = fetch_failure_modes [where net = timeout_network and anet = unavailable_api
      and str = str_of_text and acode = 503 and abody = "Inl (Exception ''unread'')"]
  note b = fetch_failure_modes [where net = no_table_network and anet = quota_api
      and str = str_of_text
      and kvs = "[(''result'', PyStr ''error''), (''error-type'', PyStr ''quota-reached'')]"]
  note c = fetch_failure_modes [where anet = no_vnd_api and str = str_of_text
      and kvs = "[(''result'', PyStr ''success''),
                (''rates'', PyDict [(''USD'', PyFloat (Finite False 5 (- 3)))])]"]
  have 1: "fst (scrape_aud_rate_webgia timeout_network) = failure ''Request timeout. Please try again later.''"
    using a t by simp
  have 2: "requests (snd (scrape_aud_rate_webgia timeout_network)) = 5"
    using a t by simp
  have 3: "fst (scrape_aud_rate_webgia no_table_network) = failure ''Exchange rate table not found on page''"
    using b n by simp
  have 4: "fst (scrape_aud_rate str_of_text unavailable_api) = failure ''Failed to fetch rate. HTTP Status: 503''"
    using a u by simp
  have 5: "requests (snd (scrape_aud_rate str_of_text unavailable_api)) = 1"
    using a u by simp
  have 6: "fst (scrape_aud_rate str_of_text quota_api) = failure ''API error: quota-reached''"
    using b q by simp
  have 7: "fst (scrape_aud_rate str_of_text no_vnd_api) = failure ''VND rate not found in API response''"
    using c v by simp
  show ?thesis using 1 2 3 4 5 6 7 by simp
qed

section \<open>The formatted rate of the structured-API strategy\<close>

lemma thousands_grouped_examples:
  "thousands_grouped ''16,500''" "\<not> thousands_grouped ''1650,0''"
  "\<not> thousands_grouped '',500''" "\<not> thousands_grouped ''1500''"
  "digits_value ''1650050'' = 1650050"
  by (simp_all add: thousands_grouped_def is_digit_def digits_value_def digit_value_def)

lemma digit_char_cases:
  "k < 10 \<Longrightarrow> is_digit (''0123456789'' ! k) \<and> digit_value (''0123456789'' ! k) = k"
proof -
  assume "k < 10"
  then have "k = 0 \<or> k = 1 \<or> k = 2 \<or> k = 3 \<or> k = 4 \<or> k = 5 \<or> k = 6 \<or> k = 7 \<or> k = 8 \<or> k = 9"
    by arith
  then show ?thesis
    by (elim disjE) (simp_all add: is_digit_def digit_value_def)
qed

lemma is_digit_digit_char [simp]: "is_digit (digit_char d)"
  using digit_char_cases [of "d mod 10"] by (simp add: digit_char_def)

lemma digit_value_digit_char [simp]: "digit_value (digit_char d) = d mod 10"
  using digit_char_cases [of "d mod 10"] by (simp add: digit_char_def)

lemma is_digit_not_comma: "is_digit c \<Longrightarrow> c \<noteq> CHR '',''"
  by (auto simp: is_digit_def)

lemma digits10_digits: "c \<in> set (digits10 n) \<Longrightarrow> is_digit c"
proof (induction n arbitrary: c rule: digits10.induct)
  case (1 n)
  then show ?case by (subst (asm) (2) digits10.simps) (auto split: if_splits)
qed

lemma digits10_nonempty: "digits10 n \<noteq> []"
  by (subst digits10.simps) simp

lemma digits_value_snoc: "digits_value (ds @ [c]) = 10 * digits_value ds + digit_value c"
  by (simp add: digits_value_def)

lemma digits_value_digits10: "digits_value (digits10 n) = n"
proof (induction n rule: digits10.induct)
  case (1 n)
  show ?case
  proof (cases "n < 10")
    case True
    then show ?thesis by (subst digits10.simps) (simp add: digits_value_def)
  next
    case False
    then have "digits_value (digits10 n) = 10 * digits_value (digits10 (n div 10)) + n mod 10"
      by (subst digits10.simps) (simp add: digits_value_snoc)
    then show ?thesis using 1 False by simp
  qed
qed

lemma grouped_rev_short:
  "length xs \<le> 3 \<Longrightarrow> grouped_rev xs = (xs \<noteq> [] \<and> (\<forall>c \<in> set xs. is_digit c))"
  by (cases xs rule: grouped_rev.cases) auto

lemma grouped_rev_three:
  assumes "length xs = 3"
  shows "grouped_rev (xs @ CHR '','' # rest) = ((\<forall>c \<in> set xs. is_digit c) \<and> grouped_rev rest)"
proof -
  from assms obtain a b c where "xs = [a, b, c]"
    by (auto simp: length_Suc_conv numeral_3_eq_3)
  then show ?thesis by auto
qed

lemma group3_nonempty: "ds \<noteq> [] \<Longrightarrow> group3 ds \<noteq> []"
  by (subst group3.simps) simp

lemma thousands_grouped_group3:
  "ds \<noteq> [] \<Longrightarrow> (\<forall>c \<in> set ds. is_digit c) \<Longrightarrow> thousands_grouped (group3 ds)"
proof (induction ds rule: group3.induct)
  case (1 ds)
  show ?case
  proof (cases "length ds \<le> 3")
    case True
    then show ?thesis using 1(2,3)
      by (subst group3.simps) (simp add: thousands_grouped_def grouped_rev_short)
  next
    case False
    let ?hd = "take (length ds - 3) ds" and ?tl = "drop (length ds - 3) ds"
    have hd: "?hd \<noteq> []" using False by auto
    have dig: "\<forall>c \<in> set ?hd. is_digit c" "\<forall>c \<in> set ?tl. is_digit c"
      using 1(3) by (auto dest: in_set_takeD in_set_dropD)
    have ih: "thousands_grouped (group3 ?hd)" using 1(1) [OF False hd dig(1)] .
    have len: "length (rev ?tl) = 3" using False by simp
    have "rev (group3 ds) = rev ?tl @ CHR '','' # rev (group3 ?hd)"
      using False by (subst group3.simps) simp
    then show ?thesis using ih dig(2) grouped_rev_three [OF len]
      by (simp add: thousands_grouped_def)
  qed
qed

lemma ungroup_group3:
  "(\<forall>c \<in> set ds. is_digit c) \<Longrightarrow> ungroup (group3 ds) = ds"
proof (induction ds rule: group3.induct)
  case (1 ds)
  have nc: "filter (\<lambda>c. c \<noteq> CHR '','') ds = ds"
    using 1(2) by (auto simp: filter_id_conv dest: is_digit_not_comma)
  show ?case
  proof (cases "length ds \<le> 3")
    case True
    then show ?thesis using nc by (subst group3.simps) (simp add: ungroup_def)
  next
    case False
    let ?hd = "take (length ds - 3) ds" and ?tl = "drop (length ds - 3) ds"
    have dig: "\<forall>c \<in> set ?hd. is_digit c" "\<forall>c \<in> set ?tl. is_digit c"
      using 1(2) by (auto dest: in_set_takeD in_set_dropD)
    have tl: "filter (\<lambda>c. c \<noteq> CHR '','') ?tl = ?tl"
      using dig(2) by (auto simp: filter_id_conv dest: is_digit_not_comma)
    have ih: "ungroup (group3 ?hd) = ?hd" using 1(1) [OF False dig(1)] .
    have "ungroup (group3 ds) = ungroup (group3 ?hd) @ ungroup ?tl"
      using False by (subst group3.simps) (simp add: ungroup_def)
    then show ?thesis using ih tl by (simp add: ungroup_def)
  qed
qed


lemma magnitude_pos: "m \<noteq> 0 \<Longrightarrow> 0 < magnitude m e"
  by (simp add: magnitude_def)

lemma round_close:
  fixes a d q r :: nat
  assumes d: "0 < d" and q: "q = a div d" and r: "r = a mod d"
  shows "\<bar>of_nat (if d < 2 * r \<or> (2 * r = d \<and> odd q) then Suc q else q) - (of_nat a / of_nat d :: rat)\<bar> \<le> 1 / 2"
proof -
  have a: "a = q * d + r" using q r by simp
  have rd: "r < d" using d r by simp
  have dpos: "(0::rat) < of_nat d" using d by simp
  have quot: "(of_nat a / of_nat d :: rat) = of_nat q + of_nat r / of_nat d"
    using d by (simp add: a field_simps)
  define f :: rat where "f = of_nat r / of_nat d"
  have f1: "f < 1" "0 \<le> f" using rd dpos by (simp_all add: f_def)
  show ?thesis
  proof (cases "d < 2 * r \<or> (2 * r = d \<and> odd q)")
    case True
    then have "d \<le> 2 * r" by auto
    then have "(of_nat d :: rat) \<le> 2 * of_nat r"
      by (metis of_nat_le_iff of_nat_mult of_nat_numeral)
    then have "1 / 2 \<le> f" using dpos by (simp add: f_def field_simps)
    moreover have "of_nat (if d < 2 * r \<or> (2 * r = d \<and> odd q) then Suc q else q)
        - (of_nat a / of_nat d :: rat) = 1 - f"
      using True by (simp add: quot f_def)
    ultimately show ?thesis using f1 by linarith
  next
    case False
    then have "2 * r \<le> d" by auto
    then have "2 * (of_nat r :: rat) \<le> of_nat d"
      by (metis of_nat_le_iff of_nat_mult of_nat_numeral)
    then have "f \<le> 1 / 2" using dpos by (simp add: f_def field_simps)
    moreover have "of_nat (if d < 2 * r \<or> (2 * r = d \<and> odd q) then Suc q else q)
        - (of_nat a / of_nat d :: rat) = - f"
      using False by (simp add: quot f_def)
    ultimately show ?thesis using f1 by linarith
  qed
qed

lemma hundredths_close:
  "\<bar>of_nat (hundredths m e) / 100 - magnitude m e\<bar> \<le> 1 / 200"
proof (cases "0 \<le> e")
  case True
  then show ?thesis by (simp add: hundredths_def magnitude_def)
next
  case False
  define d :: nat where "d = 2 ^ nat (- e)"
  have d: "0 < d" by (simp add: d_def)
  have h: "hundredths m e =
      (if d < 2 * ((m * 100) mod d) \<or> (2 * ((m * 100) mod d) = d \<and> odd ((m * 100) div d))
       then Suc ((m * 100) div d) else (m * 100) div d)"
    using False by (simp add: hundredths_def Let_def d_def)
  have "\<bar>of_nat (hundredths m e) - (of_nat (m * 100) / of_nat d :: rat)\<bar> \<le> 1 / 2"
    unfolding h by (rule round_close [OF d refl refl])
  moreover have "magnitude m e = of_nat m / of_nat d"
    using False by (simp add: magnitude_def d_def)
  ultimately show ?thesis by (simp add: field_simps abs_le_iff)
qed

lemma hundredths_split:
  "(of_nat (c div 100) + of_nat (10 * (c div 10 mod 10) + c mod 10) / 100 :: rat) = of_nat c / 100"
proof -
  have "10 * (c div 10 mod 10) + c mod 10 = c mod 100"
    by (simp add: mod_mult2_eq [of c 10 10, simplified] add.commute)
  moreover have "(of_nat (c div 100) * 100 + of_nat (c mod 100) :: rat) = of_nat c"
    by (metis div_mult_mod_eq of_nat_add of_nat_mult of_nat_numeral)
  ultimately show ?thesis by (simp add: field_simps)
qed

lemma format_float_two_decimals:
  assumes "m \<noteq> 0"
  shows "two_decimals (number_value (PyFloat (Finite s m e))) (format_float (Finite s m e))"
proof -
  let ?c = "hundredths m e"
  let ?ip = "group3 (digits10 (?c div 100))"
  let ?x = "number_value (PyFloat (Finite s m e))"
  have pos: "0 < magnitude m e" using assms by (rule magnitude_pos)
  have sign: "?x < 0 \<longleftrightarrow> s" and mag: "\<bar>?x\<bar> = magnitude m e" using pos by auto
  have dig: "\<forall>c \<in> set (digits10 (?c div 100)). is_digit c" using digits10_digits by blast
  have grp: "thousands_grouped ?ip"
    using digits10_nonempty dig by (rule thousands_grouped_group3)
  have ung: "digits_value (ungroup ?ip) = ?c div 100"
    using dig by (simp add: ungroup_group3 digits_value_digits10)
  have frac: "digits_value [digit_char (?c div 10 mod 10), digit_char (?c mod 10)] =
      10 * (?c div 10 mod 10) + ?c mod 10"
    by (simp add: digits_value_def)
  have val: "\<bar>of_nat (digits_value (ungroup ?ip)) +
       of_nat (digits_value [digit_char (?c div 10 mod 10), digit_char (?c mod 10)]) / 100 - \<bar>?x\<bar>\<bar> \<le> 1 / 200"
    unfolding ung frac hundredths_split mag by (rule hundredths_close)
  have str: "format_float (Finite s m e) =
      (if ?x < 0 then ''-'' else []) @ ?ip @ ''.'' @ [digit_char (?c div 10 mod 10), digit_char (?c mod 10)]"
    using sign by (simp add: Let_def)
  show ?thesis
    unfolding two_decimals_def
    using str grp val is_digit_digit_char by blast
qed

lemma format_2f_int:
  assumes "n \<noteq> 0" and "\<bar>n\<bar> < 2 ^ 53"
  shows "\<exists>text. format_2f (PyInt n) = Inr text \<and> two_decimals (number_value (PyInt n)) text"
proof -
  have small: "nat \<bar>n\<bar> < 2 ^ 53" using assms(2) by (simp add: nat_less_iff)
  have f: "format_2f (PyInt n) = Inr (format_float (Finite (n < 0) (nat \<bar>n\<bar>) 0))"
    using small by (simp add: float_of_int_def)
  have v: "number_value (PyInt n) = number_value (PyFloat (Finite (n < 0) (nat \<bar>n\<bar>) 0))"
    by (simp add: magnitude_def)
  have "nat \<bar>n\<bar> \<noteq> 0" using assms(1) by simp
  then show ?thesis unfolding f v using format_float_two_decimals by blast
qed


lemma scrape_api_vnd:
  assumes up: "replies net (requests net) = Inr (Response 200 (Inr (PyDict data)))"
    and res: "map_of data ''result'' = Some (PyStr ''success'')"
    and rates: "map_of data ''rates'' = Some (PyDict rates)"
    and vnd: "map_of rates ''VND'' = Some v"
  shows "fst (scrape_aud_rate str net) =
           (if truthy v then
              (case format_2f v of
                 Inl e \<Rightarrow> handle_exn (Inl e)
               | Inr formatted \<Rightarrow> \<lparr>success = True, rate = Some formatted, currency = Some ''AUD'',
                               source = Some ''Global Market Rate'', error = None\<rparr>)
            else failure ''VND rate not found in API response'')"
  using assms
  by (simp add: scrape_aud_rate_def session_get_def api_try_def handle_exn_def split: sum.splits)

text \<open>
  Claim C3, as stated, fails: a well-formed response whose VND rate is the number 0 is
  answered with "VND rate not found", because \<^verbatim>\<open>if vnd_rate:\<close> tests the truth value.
\<close>

theorem api_zero_rate_counterexample:
  "\<not> success (fst (scrape_aud_rate str_of_text zero_vnd_api)) \<and>
   error (fst (scrape_aud_rate str_of_text zero_vnd_api)) = Some ''VND rate not found in API response''"
proof -
  have "replies zero_vnd_api (requests zero_vnd_api) =
      Inr (Response 200 (Inr (PyDict
          [(''result'', PyStr ''success''), (''rates'', PyDict [(''VND'', PyInt 0)])])))"
    by (simp add: zero_vnd_api_def)
  from scrape_api_vnd [OF this, of "[(''VND'', PyInt 0)]" "PyInt 0" str_of_text]
  show ?thesis by (simp add: failure_def)
qed

text \<open>
  Claim C3, amended. For a response with status 200 and \<^verbatim>\<open>result\<close> equal to \<^verbatim>\<open>success\<close>
  whose rates mapping holds a non-zero number under VND (an integer of magnitude below
  \<open>2 ^ 53\<close>, or a finite float), the fetch succeeds and the rate is that number written
  with thousands separators and exactly two decimals, rounded to the nearest hundredth.
\<close>

theorem api_numeric_rate_formatted:
  assumes up: "replies net (requests net) = Inr (Response 200 (Inr (PyDict data)))"
    and res: "map_of data ''result'' = Some (PyStr ''success'')"
    and rates: "map_of data ''rates'' = Some (PyDict rates)"
    and vnd: "map_of rates ''VND'' = Some v"
    and num: "(\<exists>n. v = PyInt n \<and> n \<noteq> 0 \<and> \<bar>n\<bar> < 2 ^ 53) \<or>
              (\<exists>s m e. v = PyFloat (Finite s m e) \<and> m \<noteq> 0)"
  shows "\<exists>formatted. fst (scrape_aud_rate str net) =
           \<lparr>success = True, rate = Some formatted, currency = Some ''AUD'',
            source = Some ''Global Market Rate'', error = None\<rparr> \<and>
           two_decimals (number_value v) formatted"
proof -
  have t: "truthy v" using num by auto
  have "\<exists>formatted. format_2f v = Inr formatted \<and> two_decimals (number_value v) formatted"
    using num
  proof
    assume "\<exists>n. v = PyInt n \<and> n \<noteq> 0 \<and> \<bar>n\<bar> < 2 ^ 53"
    then show ?thesis using format_2f_int by blast
  next
    assume "\<exists>s m e. v = PyFloat (Finite s m e) \<and> m \<noteq> 0"
    then obtain s m e where v: "v = PyFloat (Finite s m e)" and m: "m \<noteq> 0" by blast
    show ?thesis unfolding v using format_float_two_decimals [OF m] by simp
  qed
  then obtain formatted where f: "format_2f v = Inr formatted" and d: "two_decimals (number_value v) formatted"
    by blast
  show ?thesis using scrape_api_vnd [OF up res rates vnd, of str] t f d by simp
qed

theorem api_numeric_rate_formatted_witness:
  "fst (scrape_aud_rate str_of_text vnd_api) =
     \<lparr>success = True, rate = Some ''16,500.50'', currency = Some ''AUD'',
      source = Some ''Global Market Rate'', error = None\<rparr> \<and>
   two_decimals (33001 / 2) ''16,500.50''"
proof -
  let ?rates = "[(''USD'', PyFloat (Finite False 5 (- 3))), (''VND'', PyFloat (Finite False 33001 (- 1)))]"
  let ?data = "[(''result'', PyStr ''success''), (''rates'', PyDict ?rates)]"
  let ?v = "PyFloat (Finite False 33001 (- 1))"
  have up: "replies vnd_api (requests vnd_api) = Inr (Response 200 (Inr (PyDict ?data)))"
    by (simp add: vnd_api_def)
  have res: "map_of ?data ''result'' = Some (PyStr ''success'')" by simp
  have rates: "map_of ?data ''rates'' = Some (PyDict ?rates)" by simp
  have vnd: "map_of ?rates ''VND'' = Some ?v" by simp
  have "?v = PyFloat (Finite False 33001 (- 1)) \<and> (33001 :: nat) \<noteq> 0" by simp
  then have num: "(\<exists>n. ?v = PyInt n \<and> n \<noteq> 0 \<and> \<bar>n\<bar> < 2 ^ 53) \<or>
             (\<exists>s m e. ?v = PyFloat (Finite s m e) \<and> m \<noteq> 0)"
    by blast
  have val: "number_value ?v = 33001 / 2" by (simp add: magnitude_def)
  have fmt: "format_2f ?v = Inr ''16,500.50''"
    by (simp add: hundredths_def Let_def digits10.simps group3.simps digit_char_def)
  have run: "fst (scrape_aud_rate str_of_text vnd_api) =
     \<lparr>success = True, rate = Some ''16,500.50'', currency = Some ''AUD'',
      source = Some ''Global Market Rate'', error = None\<rparr>"
    using scrape_api_vnd [OF up res rates vnd, of str_of_text] fmt by simp
  from api_numeric_rate_formatted [OF up res rates vnd num, of str_of_text]
  obtain formatted where r: "fst (scrape_aud_rate str_of_text vnd_api) =
           \<lparr>success = True, rate = Some formatted, currency = Some ''AUD'',
            source = Some ''Global Market Rate'', error = None\<rparr>"
    and d: "two_decimals (number_value ?v) formatted" by blast
  have eq: "formatted = ''16,500.50''" using r run by simp
  have "two_decimals (33001 / 2) ''16,500.50''" using d unfolding val eq .
  with run show ?thesis by (intro conjI)
qed

end
